theory Spec2Isabelle
  imports Complex_Main
begin

section \<open>Python strings\<close>

text \<open>
  A Python \<open>str\<close> is a sequence of code points; \<open>len\<close>, slicing, \<open>strip\<close> and
  \<open>lower\<close> all work per code point. The model uses \<open>string\<close>, whose characters are
  the code points below 256 (Latin-1), and is exact for such texts: \<open>is_space\<close> holds
  of the code points below 256 that \<open>str.strip()\<close> removes, and \<open>lower_char\<close> is
  \<open>str.lower()\<close> on them.
\<close>

definition is_space :: "char \<Rightarrow> bool" where
  "is_space c = ((of_char c :: nat) \<in> {9, 10, 11, 12, 13, 28, 29, 30, 31, 32, 133, 160})"

definition strip :: "string \<Rightarrow> string" where
  "strip s = rev (dropWhile is_space (rev (dropWhile is_space s)))"

definition rstrip :: "char \<Rightarrow> string \<Rightarrow> string" where
  \<comment> \<open>\<open>s.rstrip(c)\<close> for a one-character argument: every trailing \<open>c\<close> goes.\<close>
  "rstrip c s = rev (dropWhile (\<lambda>x. x = c) (rev s))"

definition lower_char :: "char \<Rightarrow> char" where
  "lower_char c =
     (let n = (of_char c :: nat)
      in if (65 \<le> n \<and> n \<le> 90) \<or> (192 \<le> n \<and> n \<le> 222 \<and> n \<noteq> 215)
         then char_of (n + 32) else c)"

definition lower :: "string \<Rightarrow> string" where
  "lower s = map lower_char s"

definition quoted :: "string \<Rightarrow> string" where
  \<comment> \<open>the text between two apostrophes, as in \<open>f"'{origin}'"\<close>\<close>
  "quoted s = [CHR 0x27] @ s @ [CHR 0x27]"

fun str_nat :: "nat \<Rightarrow> string" where
  \<comment> \<open>\<open>str(n)\<close> for a natural number: its decimal digits\<close>
  "str_nat n = (if n < 10 then [char_of (48 + n)] else str_nat (n div 10) @ [char_of (48 + n mod 10)])"

definition str_int :: "int \<Rightarrow> string" where
  "str_int i = (if i < 0 then CHR ''-'' # str_nat (nat (- i)) else str_nat (nat i))"

definition py_slice :: "string \<Rightarrow> int \<Rightarrow> int \<Rightarrow> string" where
  \<comment> \<open>\<open>s[i:j]\<close>: a negative bound counts from the end, both bounds are clamped to
      \<open>[0, len(s)]\<close>, and an empty range gives the empty string.\<close>
  "py_slice s i j =
     (let n = int (length s);
          a = (if i < 0 then max 0 (i + n) else min i n);
          b = (if j < 0 then max 0 (j + n) else min j n)
      in take (nat (b - a)) (drop (nat a) s))"

section \<open>Exceptions (core/exceptions.py)\<close>

text \<open>
  The exception classes of the application, with the constructor arguments they store.
  \<open>TypeError\<close>, \<open>IndexError\<close> and \<open>Exception\<close> are Python's own: the first two are
  what the interpreter raises on an ill-typed operation and on an index out of range, the
  third stands for any failure of a collaborator (database driver, provider client).
\<close>

datatype error =
    ValidationError string
  | NotFoundError string
  | UnauthorizedError string
  | ForbiddenError string
  | RateLimitError string
  | ExternalServiceError string string
  | OriginNotAllowedError string
  | TypeError string
  | IndexError string
  | Exception string

fun message :: "error \<Rightarrow> string" where
  "message (ValidationError m) = m"
| "message (NotFoundError m) = m"
| "message (UnauthorizedError m) = m"
| "message (ForbiddenError m) = m"
| "message (RateLimitError m) = m"
| "message (ExternalServiceError m service) = m"
| "message (OriginNotAllowedError origin) =
     ''Origin '' @ quoted origin @ '' is not allowed for this chatbox''"
| "message (TypeError m) = m"
| "message (IndexError m) = m"
| "message (Exception m) = m"

fun code :: "error \<Rightarrow> string" where
  "code (ValidationError m) = ''VALIDATION_ERROR''"
| "code (NotFoundError m) = ''NOT_FOUND''"
| "code (UnauthorizedError m) = ''UNAUTHORIZED''"
| "code (ForbiddenError m) = ''FORBIDDEN''"
| "code (RateLimitError m) = ''RATE_LIMIT_EXCEEDED''"
| "code (ExternalServiceError m service) = ''EXTERNAL_SERVICE_ERROR''"
| "code (OriginNotAllowedError origin) = ''FORBIDDEN''"
| "code (TypeError m) = ''''"
| "code (IndexError m) = ''''"
| "code (Exception m) = ''''"

fun isinstance_ForbiddenError :: "error \<Rightarrow> bool" where
  \<comment> \<open>\<open>class OriginNotAllowedError(ForbiddenError)\<close>\<close>
  "isinstance_ForbiddenError (ForbiddenError m) = True"
| "isinstance_ForbiddenError (OriginNotAllowedError origin) = True"
| "isinstance_ForbiddenError e = False"

definition py_or :: "'a::zero option \<Rightarrow> 'a \<Rightarrow> 'a" where
  \<comment> \<open>\<open>x or d\<close> for an optional number: \<open>None\<close> and zero are falsy and give \<open>d\<close>.\<close>
  "py_or x d = (case x of None \<Rightarrow> d | Some v \<Rightarrow> if v = 0 then d else v)"

section \<open>Settings (core/config.py)\<close>

record Settings =
  vector_min_score_default :: real
  vector_top_k_default :: int
  settings_chunk_size :: int
  settings_chunk_overlap :: int

definition default_settings :: Settings where
  "default_settings =
     \<lparr>vector_min_score_default = 7 / 10, vector_top_k_default = 5,
      settings_chunk_size = 1000, settings_chunk_overlap = 200\<rparr>"

section \<open>Chunking (services/chunking\_service.py)\<close>

record ChunkingService =
  chunk_size :: int
  chunk_overlap :: int

definition ChunkingService_init :: "Settings \<Rightarrow> int option \<Rightarrow> int option \<Rightarrow> ChunkingService" where
  \<comment> \<open>\<open>self.chunk_size = chunk_size or settings.chunk_size\<close>, and the same for the overlap.\<close>
  "ChunkingService_init settings size_arg overlap_arg =
     \<lparr>chunk_size = py_or size_arg (settings_chunk_size settings),
      chunk_overlap = py_or overlap_arg (settings_chunk_overlap settings)\<rparr>"

definition append_chunk :: "ChunkingService \<Rightarrow> string \<Rightarrow> int \<Rightarrow> string list \<Rightarrow> string list" where
  \<comment> \<open>The first half of the loop body: take \<open>text[start:end]\<close>, keep it stripped
      unless it is blank.\<close>
  "append_chunk self text start chunks =
     (let end = start + chunk_size self;
          chunk = py_slice text start end
      in if strip chunk \<noteq> [] then chunks @ [strip chunk] else chunks)"

text \<open>
  The \<open>while\<close> loop of \<open>chunk_text\<close>, as a function of its variables \<open>start\<close> and
  \<open>chunks\<close>. From an arbitrary state the loop need not end (a zero advance with
  \<open>0 < start < len(text)\<close> repeats forever), so the result is an option and \<open>None\<close>
  means that the loop does not return.
\<close>

partial_function (option) chunk_loop ::
  "ChunkingService \<Rightarrow> string \<Rightarrow> int \<Rightarrow> string list \<Rightarrow> string list option" where
  "chunk_loop self text start chunks =
     (if start < int (length text)
      then (if start + (chunk_size self - chunk_overlap self) \<le> 0
            then Some (append_chunk self text start chunks)
            else chunk_loop self text (start + (chunk_size self - chunk_overlap self))
                   (append_chunk self text start chunks))
      else Some chunks)"

definition chunk_text :: "ChunkingService \<Rightarrow> string \<Rightarrow> string list option" where
  "chunk_text self text =
     (if text = [] \<or> strip text = [] then Some [] else chunk_loop self text 0 [])"

text \<open>
  The chunker in the words of its specification, for a positive advance: the start
  offsets are \<open>0, step, 2 * step, \<dots>\<close> below the length of the text, the chunk at
  offset \<open>s\<close> is the substring \<open>[s, s + csize)\<close> stripped, and blank chunks are left
  out.
\<close>

definition chunk_offsets :: "nat \<Rightarrow> nat \<Rightarrow> nat list" where
  "chunk_offsets step n = map (\<lambda>k. k * step) [0..<(n + step - 1) div step]"

definition substring :: "string \<Rightarrow> nat \<Rightarrow> nat \<Rightarrow> string" where
  "substring text s e = take (e - s) (drop s text)"

definition chunks_spec :: "nat \<Rightarrow> nat \<Rightarrow> string \<Rightarrow> string list" where
  "chunks_spec csize overlap text =
     filter (\<lambda>c. c \<noteq> [])
       (map (\<lambda>s. strip (substring text s (s + csize)))
          (chunk_offsets (csize - overlap) (length text)))"

section \<open>Embeddings (services/embedding\_service.py)\<close>

text \<open>
  Floats are modelled as reals. What the interpreter and numpy contribute is a parameter
  of the model: \<open>hash\<close> is the built-in \<open>hash\<close> on strings in the running process, and
  \<open>randn seed n\<close> is the array that \<open>np.random.randn(n)\<close> returns right after
  \<open>np.random.seed(seed)\<close>.
\<close>

record Process =
  hash :: "string \<Rightarrow> int"
  randn :: "int \<Rightarrow> nat \<Rightarrow> real list"

text \<open>
  \<open>openai_client\<close> is \<open>None\<close> when no API key is configured. Otherwise it is the
  provider call \<open>embeddings.create(model, input)\<close> followed by the extraction of the
  vectors from the response; \<open>Inl\<close> is any exception raised on the way.
\<close>

record EmbeddingService =
  openai_client :: "(string list \<Rightarrow> error + real list list) option"
  embedding_dim :: nat

definition stub_seed :: "Process \<Rightarrow> string \<Rightarrow> int" where
  \<comment> \<open>the argument of \<open>np.random.seed\<close>: \<open>hash(text) % (2**32)\<close>\<close>
  "stub_seed proc text = hash proc text mod 2 ^ 32"

definition norm :: "real list \<Rightarrow> real" where
  "norm v = sqrt (sum_list (map (\<lambda>x. x * x) v))"

definition generate_stub_embedding :: "Process \<Rightarrow> EmbeddingService \<Rightarrow> string \<Rightarrow> real list" where
  "generate_stub_embedding proc self text =
     (let embedding = randn proc (stub_seed proc text) (embedding_dim self)
      in if norm embedding > 0 then map (\<lambda>x. x / norm embedding) embedding else embedding)"

definition embed_texts :: "Process \<Rightarrow> EmbeddingService \<Rightarrow> string list \<Rightarrow> error + real list list" where
  "embed_texts proc self texts =
     (if texts = [] then Inr []
      else case openai_client self of
             Some create \<Rightarrow>
               (case create texts of
                  Inl e \<Rightarrow> Inl (ExternalServiceError (''Failed to generate embeddings: '' @ message e) ''openai'')
                | Inr vectors \<Rightarrow> Inr vectors)
           | None \<Rightarrow> Inr (map (generate_stub_embedding proc self) texts))"

text \<open>
  \<open>embed_text\<close> is the one line \<open>return await self.embed_texts([text])[0]\<close>. In
  Python's grammar \<open>await\<close> takes a whole primary, subscript included, so the line
  subscripts the coroutine object that the call returns and awaits the outcome of that.
  The objects this expression can meet are these; a coroutine carries the outcome its
  body has when it is run.
\<close>

datatype pyobj =
    Coroutine "error + real list list"
  | Embeddings "real list list"
  | Embedding "real list"
  | Float real

definition py_index :: "'a list \<Rightarrow> int \<Rightarrow> error + 'a" where
  \<comment> \<open>\<open>xs[i]\<close>: an index from \<open>-len(xs)\<close> up to \<open>-1\<close> counts from the end\<close>
  "py_index xs i =
     (if 0 \<le> i \<and> i < int (length xs) then Inr (xs ! nat i)
      else if - int (length xs) \<le> i \<and> i < 0 then Inr (xs ! nat (int (length xs) + i))
      else Inl (IndexError ''list index out of range''))"

fun getitem :: "pyobj \<Rightarrow> int \<Rightarrow> error + pyobj" where
  "getitem (Coroutine body) i = Inl (TypeError (quoted ''coroutine'' @ '' object is not subscriptable''))"
| "getitem (Embeddings vs) i = map_sum id Embedding (py_index vs i)"
| "getitem (Embedding v) i = map_sum id Float (py_index v i)"
| "getitem (Float x) i = Inl (TypeError (quoted ''float'' @ '' object is not subscriptable''))"

fun await :: "pyobj \<Rightarrow> error + pyobj" where
  "await (Coroutine body) = map_sum id Embeddings body"
| "await obj = Inl (TypeError ''object can not be used in an await expression'')"

definition embed_text :: "Process \<Rightarrow> EmbeddingService \<Rightarrow> string \<Rightarrow> error + pyobj" where
  "embed_text proc self text =
     (case getitem (Coroutine (embed_texts proc self [text])) 0 of
        Inl e \<Rightarrow> Inl e
      | Inr item \<Rightarrow> await item)"

definition first_embedding :: "Process \<Rightarrow> EmbeddingService \<Rightarrow> string \<Rightarrow> error + pyobj" where
  \<comment> \<open>the first element of \<open>embed_texts([text])\<close>: the call awaited, then subscripted\<close>
  "first_embedding proc self text =
     (case await (Coroutine (embed_texts proc self [text])) of
        Inl e \<Rightarrow> Inl e
      | Inr vectors \<Rightarrow> getitem vectors 0)"

section \<open>Data model (models/) and the database\<close>

text \<open>
  The columns of the three tables that the pipeline reads and writes, without the
  timestamps. A field carries the name of its table where two tables share a column
  name. The database is the state of the three tables together with the sequences that
  hand out primary keys; \<open>session.add\<close> followed by \<open>session.commit\<close> appends a row.
\<close>

record Chatbox =
  chatbox_id :: int
  organization_id :: int
  chatbox_name :: string
  description :: "string option"
  allowed_domains :: "string list option"
  enforce_allowed_domains :: bool

datatype DocumentType = TEXT | URL | FILE

record Document =
  document_id :: int
  document_chatbox_id :: int
  source_type :: DocumentType
  source_name :: "string option"
  source_url :: "string option"
  raw_content :: string
  file_size_bytes :: "int option"
  mime_type :: "string option"

record Chunk =
  chunk_id :: int
  chunk_document_id :: int
  chunk_chatbox_id :: int
  content :: string
  chunk_index :: int
  embedding :: "real list option"

record Database =
  chatboxes :: "Chatbox list"
  documents :: "Document list"
  chunks :: "Chunk list"
  chatbox_seq :: int
  document_seq :: int
  chunk_seq :: int

definition empty_database :: Database where
  "empty_database =
     \<lparr>chatboxes = [], documents = [], chunks = [], chatbox_seq = 1, document_seq = 1, chunk_seq = 1\<rparr>"

subsection \<open>repositories/chatbox\_repository.py, repositories/document\_repository.py\<close>

definition chatbox_get_by_id :: "Database \<Rightarrow> int \<Rightarrow> error + Chatbox" where
  "chatbox_get_by_id db cid =
     (case find (\<lambda>c. chatbox_id c = cid) (chatboxes db) of
        None \<Rightarrow> Inl (NotFoundError (''Chatbox with id '' @ str_int cid @ '' not found''))
      | Some chatbox \<Rightarrow> Inr chatbox)"

definition chatbox_create :: "Database \<Rightarrow> Chatbox \<Rightarrow> Chatbox \<times> Database" where
  \<comment> \<open>the row gets its key from the sequence; the commit makes it durable\<close>
  "chatbox_create db chatbox =
     (let stored = chatbox\<lparr>chatbox_id := chatbox_seq db\<rparr>
      in (stored, db\<lparr>chatboxes := chatboxes db @ [stored], chatbox_seq := chatbox_seq db + 1\<rparr>))"

definition chatbox_update :: "Database \<Rightarrow> Chatbox \<Rightarrow> Chatbox \<times> Database" where
  \<comment> \<open>the commit writes the changed attributes of the loaded row back\<close>
  "chatbox_update db chatbox =
     (chatbox, db\<lparr>chatboxes :=
                     map (\<lambda>c. if chatbox_id c = chatbox_id chatbox then chatbox else c) (chatboxes db)\<rparr>)"

text \<open>
  The insert of a document is checked by the database when \<open>session.commit()\<close> sends
  it: \<open>source_name\<close> is a \<open>String(500)\<close> and \<open>mime_type\<close> a \<open>String(100)\<close>, and
  \<open>chatbox_id\<close> is a foreign key to \<open>chatboxes.id\<close>. A value that is too long or a
  chatbox that does not exist makes the commit raise; the exception is the driver's, not one
  of the application's classes. No row is stored then. The key that the statement drew
  from the sequence is lost: a sequence is not rolled back.
\<close>

definition too_long :: "nat \<Rightarrow> string option \<Rightarrow> bool" where
  "too_long limit column = (case column of None \<Rightarrow> False | Some v \<Rightarrow> limit < length v)"

definition document_create :: "Database \<Rightarrow> Document \<Rightarrow> (error + Document) \<times> Database" where
  "document_create db document =
     (if too_long 500 (source_name document) \<or> too_long 100 (mime_type document)
      then (Inl (Exception ''DataError: value too long for type character varying''),
            db\<lparr>document_seq := document_seq db + 1\<rparr>)
      else if document_chatbox_id document \<notin> set (map chatbox_id (chatboxes db))
      then (Inl (Exception ''IntegrityError: documents.chatbox_id is not present in table chatboxes''),
            db\<lparr>document_seq := document_seq db + 1\<rparr>)
      else (let stored = document\<lparr>document_id := document_seq db\<rparr>
            in (Inr stored,
                db\<lparr>documents := documents db @ [stored], document_seq := document_seq db + 1\<rparr>)))"

definition document_get_by_id_optional :: "Database \<Rightarrow> int \<Rightarrow> Document option" where
  "document_get_by_id_optional db did = find (\<lambda>d. document_id d = did) (documents db)"

subsection \<open>repositories/chunk\_repository.py\<close>

fun assign_chunk_ids :: "int \<Rightarrow> Chunk list \<Rightarrow> Chunk list" where
  "assign_chunk_ids n [] = []"
| "assign_chunk_ids n (c # cs) = c\<lparr>chunk_id := n\<rparr> # assign_chunk_ids (n + 1) cs"

definition create_many :: "Database \<Rightarrow> Chunk list \<Rightarrow> Chunk list \<times> Database" where
  "create_many db new_chunks =
     (let stored = assign_chunk_ids (chunk_seq db) new_chunks
      in (stored, db\<lparr>chunks := chunks db @ stored,
                      chunk_seq := chunk_seq db + int (length new_chunks)\<rparr>))"

text \<open>
  The vector engine is a collaborator: a session is \<open>session.execute(text(query),
  params)\<close> followed by \<open>fetchall()\<close>, and \<open>Inl\<close> is any exception it raises (the
  extension is missing, the connection is down). The statement is passed as its text and
  its parameters; the pgvector literal built from the query embedding is kept as the list
  of the items it prints. A \<open>similarity\<close> that is \<open>None\<close> is an SQL null.
\<close>

record SearchParams =
  param_embedding :: "pyobj list"
  param_chatbox_id :: int
  param_document_id :: "int option"
  param_min_score :: real
  param_top_k :: int

record Row =
  row_id :: int
  row_document_id :: int
  row_chatbox_id :: int
  row_content :: string
  row_chunk_index :: int
  row_similarity :: "real option"

type_synonym Session = "string \<Rightarrow> SearchParams \<Rightarrow> error + Row list"

fun iterate :: "pyobj \<Rightarrow> error + pyobj list" where
  \<comment> \<open>what \<open>map(str, query_embedding)\<close> runs over\<close>
  "iterate (Embedding v) = Inr (map Float v)"
| "iterate (Embeddings vs) = Inr (map Embedding vs)"
| "iterate (Coroutine body) = Inl (TypeError (quoted ''coroutine'' @ '' object is not iterable''))"
| "iterate (Float x) = Inl (TypeError (quoted ''float'' @ '' object is not iterable''))"

definition search_query :: "int option \<Rightarrow> string" where
  "search_query document_filter =
     ''SELECT id, document_id, chatbox_id, content, chunk_index, embedding, ''
     @ ''1 - (embedding <=> :embedding::vector) AS similarity ''
     @ ''FROM chunks WHERE chatbox_id = :chatbox_id''
     @ (if document_filter \<noteq> None then '' AND document_id = :document_id'' else [])
     @ '' AND (1 - (embedding <=> :embedding::vector)) >= :min_score ''
     @ ''ORDER BY embedding <=> :embedding::vector LIMIT :top_k''"

fun rows_to_chunks :: "Row list \<Rightarrow> error + (Chunk \<times> real) list" where
  "rows_to_chunks [] = Inr []"
| "rows_to_chunks (row # rows) =
     (case row_similarity row of
        None \<Rightarrow> Inl (TypeError ''float() argument must be a string or a real number'')
      | Some score \<Rightarrow>
          (case rows_to_chunks rows of
             Inl e \<Rightarrow> Inl e
           | Inr rest \<Rightarrow>
               Inr ((\<lparr>chunk_id = row_id row, chunk_document_id = row_document_id row,
                      chunk_chatbox_id = row_chatbox_id row, content = row_content row,
                      chunk_index = row_chunk_index row, embedding = None\<rparr>, score) # rest)))"

definition search_attempt ::
  "Session \<Rightarrow> int \<Rightarrow> pyobj \<Rightarrow> int \<Rightarrow> real \<Rightarrow> int option \<Rightarrow> error + (Chunk \<times> real) list" where
  \<comment> \<open>the body of the \<open>try\<close> block\<close>
  "search_attempt execute cid query_embedding top_k min_score did =
     (case iterate query_embedding of
        Inl e \<Rightarrow> Inl e
      | Inr items \<Rightarrow>
          (case execute (search_query did)
                  \<lparr>param_embedding = items, param_chatbox_id = cid, param_document_id = did,
                   param_min_score = min_score, param_top_k = top_k\<rparr> of
             Inl e \<Rightarrow> Inl e
           | Inr rows \<Rightarrow> rows_to_chunks rows))"

definition similarity_search ::
  "Session \<Rightarrow> int \<Rightarrow> pyobj \<Rightarrow> int \<Rightarrow> real \<Rightarrow> int option \<Rightarrow> error + (Chunk \<times> real) list" where
  \<comment> \<open>\<open>except Exception\<close>: log a warning and return the empty list\<close>
  "similarity_search execute cid query_embedding top_k min_score did =
     (case search_attempt execute cid query_embedding top_k min_score did of
        Inl e \<Rightarrow> Inr []
      | Inr chunks_with_scores \<Rightarrow> Inr chunks_with_scores)"

section \<open>Answers (services/llm\_service.py)\<close>

text \<open>
  \<open>llm_client\<close> is \<open>None\<close> when no API key is configured. Otherwise it is the chat
  completion call, from the system and the user prompt to the content of the first
  choice; \<open>Inl\<close> is any exception raised on the way.
\<close>

record LLMService =
  llm_client :: "(string \<Rightarrow> string \<Rightarrow> error + string) option"

definition join :: "string \<Rightarrow> string list \<Rightarrow> string" where
  "join sep xs = (case xs of [] \<Rightarrow> [] | y # ys \<Rightarrow> y @ concat (map (\<lambda>z. sep @ z) ys))"

definition system_prompt :: string where
  "system_prompt =
     ''You are a helpful assistant that answers questions based on the provided context. ''
     @ ''If the answer is not in the context, say so. ''
     @ ''Always cite your sources by reference number [1], [2], etc.''"

definition user_prompt :: "string \<Rightarrow> string list \<Rightarrow> string" where
  "user_prompt question context_chunks =
     (let context = join [CHR 0x0A, CHR 0x0A]
            (map (\<lambda>(i, chunk). ''['' @ str_nat (i + 1) @ ''] '' @ chunk)
               (enumerate 0 context_chunks))
      in ''Context:'' @ [CHR 0x0A] @ context @ [CHR 0x0A, CHR 0x0A] @ ''Question: '' @ question
         @ [CHR 0x0A, CHR 0x0A] @ ''Answer:'')"

definition generate_stub_answer :: "string \<Rightarrow> string list \<Rightarrow> string" where
  "generate_stub_answer question context_chunks =
     (if context_chunks = []
      then ''[DEV MODE - Stub Answer] I don'' @ [CHR 0x27] @ ''t have enough information to answer: ''
           @ quoted question @ ''. No relevant content was found.''
      else ''[DEV MODE - Stub Answer] Based on the retrieved context, here'' @ [CHR 0x27]
           @ ''s a response to: '' @ quoted question @ ''. Found ''
           @ str_nat (length context_chunks) @ '' relevant chunks. ''
           @ ''In production, OpenAI would generate a detailed answer here.'')"

definition generate_answer :: "LLMService \<Rightarrow> string \<Rightarrow> string list \<Rightarrow> error + string" where
  "generate_answer self question context_chunks =
     (case llm_client self of
        Some create \<Rightarrow>
          (case create system_prompt (user_prompt question context_chunks) of
             Inl e \<Rightarrow> Inl (ExternalServiceError (''Failed to generate answer: '' @ message e) ''openai'')
           | Inr answer \<Rightarrow> Inr (strip answer))
      | None \<Rightarrow> Inr (generate_stub_answer question context_chunks))"

section \<open>Queries (services/query\_service.py)\<close>

definition normalize :: "string \<Rightarrow> string" where
  \<comment> \<open>\<open>.lower().rstrip("/")\<close>\<close>
  "normalize s = rstrip (CHR ''/'') (lower s)"

definition validate_origin :: "Chatbox \<Rightarrow> string option \<Rightarrow> error + unit" where
  "validate_origin chatbox origin =
     (if \<not> enforce_allowed_domains chatbox then Inr ()
      else case origin of
             None \<Rightarrow> Inl (ForbiddenError ''Origin header is required for this chatbox'')
           | Some orig \<Rightarrow>
               if orig = [] then Inl (ForbiddenError ''Origin header is required for this chatbox'')
               else (case allowed_domains chatbox of
                       None \<Rightarrow> Inl (ForbiddenError ''No allowed domains configured for this chatbox'')
                     | Some domains \<Rightarrow>
                         if domains = []
                         then Inl (ForbiddenError ''No allowed domains configured for this chatbox'')
                         else if normalize orig \<notin> set (map normalize domains)
                         then Inl (OriginNotAllowedError orig)
                         else Inr ()))"

definition no_information_answer :: string where
  "no_information_answer =
     ''I couldn'' @ [CHR 0x27] @ ''t find any relevant information to answer your question.''"

record SourceChunk =
  source_document_id :: int
  source_chunk_id :: int
  source_content :: string
  score :: real
  source_chunk_name :: "string option"

definition resolve_defaults :: "Settings \<Rightarrow> int option \<Rightarrow> real option \<Rightarrow> int \<times> real" where
  \<comment> \<open>\<open>top_k = top_k or settings.vector_top_k_default\<close>, and the same for \<open>min_score\<close>\<close>
  "resolve_defaults settings top_k min_score =
     (py_or top_k (vector_top_k_default settings), py_or min_score (vector_min_score_default settings))"

definition load_documents :: "Database \<Rightarrow> int list \<Rightarrow> (int \<rightharpoonup> Document)" where
  \<comment> \<open>the dictionary \<open>documents\<close>, filled by the loop over \<open>doc_ids\<close>\<close>
  "load_documents db doc_ids =
     fold (\<lambda>doc_id docs. case document_get_by_id_optional db doc_id of
                            Some doc \<Rightarrow> docs(doc_id \<mapsto> doc)
                          | None \<Rightarrow> docs)
       doc_ids Map.empty"

definition build_sources :: "Database \<Rightarrow> (Chunk \<times> real) list \<Rightarrow> SourceChunk list" where
  "build_sources db chunks_with_scores =
     (let found = map fst chunks_with_scores;
          scores = map snd chunks_with_scores;
          doc_ids = remdups (map chunk_document_id found);
          docs = load_documents db doc_ids
      in map (\<lambda>(chunk, sc).
                \<lparr>source_document_id = chunk_document_id chunk, source_chunk_id = chunk_id chunk,
                 source_content = content chunk, score = sc,
                 source_chunk_name = (case docs (chunk_document_id chunk) of
                                        Some doc \<Rightarrow> source_name doc
                                      | None \<Rightarrow> None)\<rparr>)
           (zip found scores))"

definition answer_from_chunks ::
  "LLMService \<Rightarrow> Database \<Rightarrow> string \<Rightarrow> (Chunk \<times> real) list \<Rightarrow> error + string \<times> SourceChunk list" where
  \<comment> \<open>\<open>query\<close> from the test \<open>if not chunks_with_scores\<close> to its end\<close>
  "answer_from_chunks llm_service db question chunks_with_scores =
     (if chunks_with_scores = [] then Inr (no_information_answer, [])
      else case generate_answer llm_service question (map (content \<circ> fst) chunks_with_scores) of
             Inl e \<Rightarrow> Inl e
           | Inr answer \<Rightarrow> Inr (answer, build_sources db chunks_with_scores))"

definition query ::
  "Settings \<Rightarrow> Process \<Rightarrow> Session \<Rightarrow> EmbeddingService \<Rightarrow> LLMService \<Rightarrow> Database \<Rightarrow>
   Chatbox \<Rightarrow> string \<Rightarrow> string option \<Rightarrow> int option \<Rightarrow> int option \<Rightarrow> real option \<Rightarrow>
   error + string \<times> SourceChunk list" where
  "query settings proc execute embedding_service llm_service db
         chatbox question origin document_filter top_k min_score =
     (case validate_origin chatbox origin of
        Inl e \<Rightarrow> Inl e
      | Inr _ \<Rightarrow>
          (case embed_text proc embedding_service question of
             Inl e \<Rightarrow> Inl e
           | Inr query_embedding \<Rightarrow>
               (case similarity_search execute (chatbox_id chatbox) query_embedding
                       (fst (resolve_defaults settings top_k min_score))
                       (snd (resolve_defaults settings top_k min_score)) document_filter of
                  Inl e \<Rightarrow> Inl e
                | Inr chunks_with_scores \<Rightarrow>
                    answer_from_chunks llm_service db question chunks_with_scores)))"

text \<open>
  Origin validation in the words of the specification, to compare \<open>validate_origin\<close>
  with: a missing origin is rejected, and normalisation lowercases and strips a single
  trailing slash.
\<close>

definition normalize_spec :: "string \<Rightarrow> string" where
  "normalize_spec s = (if lower s \<noteq> [] \<and> last (lower s) = CHR ''/'' then butlast (lower s) else lower s)"

definition validate_origin_spec :: "Chatbox \<Rightarrow> string option \<Rightarrow> error + unit" where
  "validate_origin_spec chatbox origin =
     (if \<not> enforce_allowed_domains chatbox then Inr ()
      else case origin of
             None \<Rightarrow> Inl (ForbiddenError ''Origin header is required for this chatbox'')
           | Some orig \<Rightarrow>
               (case allowed_domains chatbox of
                  None \<Rightarrow> Inl (ForbiddenError ''No allowed domains configured for this chatbox'')
                | Some domains \<Rightarrow>
                    if domains = []
                    then Inl (ForbiddenError ''No allowed domains configured for this chatbox'')
                    else if normalize_spec orig \<in> set (map normalize_spec domains)
                    then Inr ()
                    else Inl (OriginNotAllowedError orig)))"

section \<open>Chatbox routes (api/routes/chatboxes.py)\<close>

record ChatboxCreate =
  new_name :: string
  new_description :: "string option"
  new_allowed_domains :: "string list option"
  new_enforce_allowed_domains :: bool

record ChatboxUpdate =
  upd_name :: "string option"
  upd_description :: "string option"
  upd_allowed_domains :: "string list option"
  upd_enforce_allowed_domains :: "bool option"

definition not_domains :: "string list option \<Rightarrow> bool" where
  \<comment> \<open>\<open>not allowed_domains\<close>: \<open>None\<close> and the empty list are falsy\<close>
  "not_domains ds = (ds = None \<or> ds = Some [])"

definition create_chatbox :: "Database \<Rightarrow> ChatboxCreate \<Rightarrow> int \<Rightarrow> (error + Chatbox) \<times> Database" where
  "create_chatbox db data org_id =
     (if new_enforce_allowed_domains data \<and> not_domains (new_allowed_domains data)
      then (Inl (ValidationError ''allowed_domains is required when enforce_allowed_domains is True''), db)
      else (let (chatbox, db') =
                  chatbox_create db
                    \<lparr>chatbox_id = 0, organization_id = org_id, chatbox_name = new_name data,
                     description = new_description data,
                     allowed_domains = new_allowed_domains data,
                     enforce_allowed_domains = new_enforce_allowed_domains data\<rparr>
            in (Inr chatbox, db')))"

definition apply_update :: "Chatbox \<Rightarrow> ChatboxUpdate \<Rightarrow> Chatbox" where
  \<comment> \<open>the four \<open>if data.x is not None: chatbox.x = data.x\<close> assignments\<close>
  "apply_update chatbox data =
     chatbox\<lparr>chatbox_name := (case upd_name data of None \<Rightarrow> chatbox_name chatbox | Some n \<Rightarrow> n),
             description := (case upd_description data of None \<Rightarrow> description chatbox | Some d \<Rightarrow> Some d),
             allowed_domains :=
               (case upd_allowed_domains data of None \<Rightarrow> allowed_domains chatbox | Some ds \<Rightarrow> Some ds),
             enforce_allowed_domains :=
               (case upd_enforce_allowed_domains data of
                  None \<Rightarrow> enforce_allowed_domains chatbox
                | Some b \<Rightarrow> b)\<rparr>"

text \<open>
  When the validation of \<open>update_chatbox\<close> raises, the assignments have only changed
  the loaded object: nothing was committed and the session of the request is rolled back
  (\<open>get_db\<close>), so the database is the one before the call.
\<close>

definition update_chatbox :: "Database \<Rightarrow> int \<Rightarrow> ChatboxUpdate \<Rightarrow> (error + Chatbox) \<times> Database" where
  "update_chatbox db cid data =
     (case chatbox_get_by_id db cid of
        Inl e \<Rightarrow> (Inl e, db)
      | Inr loaded \<Rightarrow>
          (let chatbox = apply_update loaded data
           in if enforce_allowed_domains chatbox \<and> not_domains (allowed_domains chatbox)
              then (Inl (ValidationError ''allowed_domains is required when enforce_allowed_domains is True''), db)
              else (let (stored, db') = chatbox_update db chatbox in (Inr stored, db'))))"

text \<open>The databases that the two routes produce, starting from the empty one.\<close>

inductive reachable :: "Database \<Rightarrow> bool" where
  initial: "reachable empty_database"
| created: "reachable db \<Longrightarrow> reachable (snd (create_chatbox db data org_id))"
| updated: "reachable db \<Longrightarrow> reachable (snd (update_chatbox db cid data))"

definition allow_list_invariant :: "Chatbox \<Rightarrow> bool" where
  "allow_list_invariant chatbox =
     (enforce_allowed_domains chatbox \<longrightarrow> \<not> not_domains (allowed_domains chatbox))"

section \<open>Ingestion (services/ingestion\_service.py)\<close>

text \<open>
  An object that has not been inserted yet has the key 0 here (in the source the
  attribute is \<open>None\<close>); the insert overwrites it. The result of \<open>ingest_text\<close> is an
  option because it runs the loop of the chunker: \<open>None\<close> means that the call does not
  return. An exception of \<open>document_repo.create\<close> leaves \<open>ingest_text\<close> at once.
\<close>

definition build_chunks :: "Document \<Rightarrow> int \<Rightarrow> string list \<Rightarrow> real list list \<Rightarrow> Chunk list" where
  "build_chunks document cid chunks_text embeddings =
     map (\<lambda>(i, (chunk_text, emb)).
            \<lparr>chunk_id = 0, chunk_document_id = document_id document, chunk_chatbox_id = cid,
             content = chunk_text, chunk_index = int i, embedding = Some emb\<rparr>)
       (enumerate 0 (zip chunks_text embeddings))"

definition new_text_document :: "int \<Rightarrow> string \<Rightarrow> string option \<Rightarrow> Document" where
  \<comment> \<open>\<open>source_name or "Raw Text"\<close>: \<open>None\<close> and the empty string are falsy\<close>
  "new_text_document cid text name =
     \<lparr>document_id = 0, document_chatbox_id = cid, source_type = TEXT,
      source_name = Some (case name of None \<Rightarrow> ''Raw Text''
                          | Some n \<Rightarrow> if n = [] then ''Raw Text'' else n),
      source_url = None, raw_content = text, file_size_bytes = None, mime_type = None\<rparr>"

definition ingest_text ::
  "Process \<Rightarrow> ChunkingService \<Rightarrow> EmbeddingService \<Rightarrow> Database \<Rightarrow> int \<Rightarrow> string \<Rightarrow> string option \<Rightarrow>
   ((error + Document \<times> nat) \<times> Database) option" where
  "ingest_text proc chunking_service embedding_service db cid text name =
     (case document_create db (new_text_document cid text name) of
        (Inl e, db1) \<Rightarrow> Some (Inl e, db1)
      | (Inr document, db1) \<Rightarrow>
          (case chunk_text chunking_service text of
             None \<Rightarrow> None
           | Some chunks_text \<Rightarrow>
               if chunks_text = [] then Some (Inr (document, 0), db1)
               else (case embed_texts proc embedding_service chunks_text of
                       Inl e \<Rightarrow> Some (Inl e, db1)
                     | Inr embeddings \<Rightarrow>
                         (let new_chunks = build_chunks document cid chunks_text embeddings;
                              (stored, db2) = create_many db1 new_chunks
                          in Some (Inr (document, length new_chunks), db2)))))"

section \<open>Properties of the chunker\<close>

declare str_nat.simps [simp del]

lemma dropWhile_all_iff: "(\<forall>x\<in>set (dropWhile P xs). P x) \<longleftrightarrow> (\<forall>x\<in>set xs. P x)"
  by (induction xs) auto

lemma strip_Nil_iff: "strip s = [] \<longleftrightarrow> (\<forall>c\<in>set s. is_space c)"
  by (simp add: strip_def dropWhile_all_iff)

lemma offsets_bound:
  assumes "0 < step"
  shows "(k::nat) < (n + step - 1) div step \<longleftrightarrow> k * step < n"
proof -
  have "k < (n + step - 1) div step \<longleftrightarrow> Suc k \<le> (n + step - 1) div step" by auto
  also have "\<dots> \<longleftrightarrow> Suc k * step \<le> n + step - 1"
    using assms by (simp add: less_eq_div_iff_mult_less_eq)
  also have "\<dots> \<longleftrightarrow> k * step < n" using assms by auto
  finally show ?thesis .
qed

lemma py_slice_forward:
  assumes "s < length text" "0 < c"
  shows "py_slice text (int s) (int s + c) = substring text s (s + nat c)"
  using assms by (auto simp: py_slice_def substring_def Let_def min_def)

text \<open>
  With a positive advance the loop, entered at the \<open>k\<close>-th offset, appends the chunks
  of the offsets from the \<open>k\<close>-th on and returns.
\<close>

lemma chunk_loop_offsets:
  assumes step: "0 < chunk_size self - chunk_overlap self" and cs: "0 < chunk_size self"
  shows "chunk_loop self text (int (k * nat (chunk_size self - chunk_overlap self))) acc =
         Some (acc @ filter (\<lambda>c. c \<noteq> [])
           (map (\<lambda>s. strip (substring text s (s + nat (chunk_size self))))
             (map (\<lambda>k. k * nat (chunk_size self - chunk_overlap self))
                [k..<(length text + nat (chunk_size self - chunk_overlap self) - 1)
                       div nat (chunk_size self - chunk_overlap self)])))"
proof (induction "(length text + nat (chunk_size self - chunk_overlap self) - 1)
                       div nat (chunk_size self - chunk_overlap self) - k" arbitrary: k acc)
  case 0
  define st where "st = nat (chunk_size self - chunk_overlap self)"
  have st: "0 < st" using step by (simp add: st_def)
  from 0 have "\<not> k < (length text + st - 1) div st" by (simp add: st_def)
  then have "\<not> k * st < length text" using offsets_bound [OF st] by simp
  then have "\<not> int (k * st) < int (length text)" unfolding of_nat_less_iff .
  moreover have "(length text + st - 1) div st \<le> k" using 0 by (simp add: st_def)
  ultimately show ?case
    unfolding st_def [symmetric] by (subst chunk_loop.simps) (simp del: of_nat_mult)
next
  case (Suc d)
  define st where "st = nat (chunk_size self - chunk_overlap self)"
  have st: "0 < st" using step by (simp add: st_def)
  have ist: "int st = chunk_size self - chunk_overlap self" using step by (simp add: st_def)
  from Suc.hyps(2) have km: "k < (length text + st - 1) div st" by (simp add: st_def)
  then have lt: "k * st < length text" using offsets_bound [OF st] by simp
  have lt': "int (k * st) < int (length text)" using lt unfolding of_nat_less_iff .
  have d: "d = (length text + st - 1) div st - Suc k" using Suc.hyps(2) by (simp add: st_def)
  have next_start: "int (k * st) + (chunk_size self - chunk_overlap self) = int (Suc k * st)"
    using ist by (simp add: algebra_simps)
  have "0 < Suc k * st" using st by simp
  then have pos: "\<not> int (Suc k * st) \<le> 0" by linarith
  have app: "append_chunk self text (int (k * st)) acc =
      acc @ filter (\<lambda>c. c \<noteq> []) [strip (substring text (k * st) (k * st + nat (chunk_size self)))]"
    using py_slice_forward [OF lt cs] by (simp add: append_chunk_def Let_def)
  have IH: "chunk_loop self text (int (Suc k * st)) (append_chunk self text (int (k * st)) acc) =
      Some (append_chunk self text (int (k * st)) acc @ filter (\<lambda>c. c \<noteq> [])
           (map (\<lambda>s. strip (substring text s (s + nat (chunk_size self))))
             (map (\<lambda>k. k * st) [Suc k..<(length text + st - 1) div st])))"
    using Suc.hyps(1) [of "Suc k"] d unfolding st_def [symmetric] by simp
  have "chunk_loop self text (int (k * st)) acc =
        chunk_loop self text (int (Suc k * st)) (append_chunk self text (int (k * st)) acc)"
    by (subst chunk_loop.simps) (simp only: lt' next_start pos if_True if_False)
  also note IH
  finally have "chunk_loop self text (int (k * st)) acc =
      Some ((acc @ filter (\<lambda>c. c \<noteq> []) [strip (substring text (k * st) (k * st + nat (chunk_size self)))])
           @ filter (\<lambda>c. c \<noteq> [])
           (map (\<lambda>s. strip (substring text s (s + nat (chunk_size self))))
             (map (\<lambda>k. k * st) [Suc k..<(length text + st - 1) div st])))"
    by (simp only: app)
  moreover have "[k..<(length text + st - 1) div st] = k # [Suc k..<(length text + st - 1) div st]"
    using km by (rule upt_conv_Cons)
  ultimately show ?case
    unfolding st_def [symmetric] by (simp del: of_nat_mult mult_Suc)
qed

text \<open>With a positive advance the loop returns from every state with \<open>start \<ge> 0\<close>.\<close>

lemma chunk_loop_returns:
  assumes step: "0 < chunk_size self - chunk_overlap self" and start: "0 \<le> start"
  shows "\<exists>result. chunk_loop self text start acc = Some result"
  using start
proof (induction "nat (int (length text) - start)" arbitrary: start acc rule: less_induct)
  case less
  show ?case
  proof (cases "start < int (length text)")
    case False
    then show ?thesis by (subst chunk_loop.simps) simp
  next
    case True
    let ?next = "start + (chunk_size self - chunk_overlap self)"
    have pos: "\<not> ?next \<le> 0" "0 \<le> ?next" using step less.prems by simp_all
    have "nat (int (length text) - ?next) < nat (int (length text) - start)"
      using step True by simp
    then obtain result where
      "chunk_loop self text ?next (append_chunk self text start acc) = Some result"
      using less.hyps pos(2) by blast
    then show ?thesis using True pos(1) by (subst chunk_loop.simps) simp
  qed
qed

text \<open>With a non-positive advance the guard \<open>if start <= 0: break\<close> ends the first iteration.\<close>

lemma chunk_loop_break:
  assumes "chunk_size self \<le> chunk_overlap self" and "text \<noteq> []"
  shows "chunk_loop self text 0 [] = Some (append_chunk self text 0 [])"
  using assms by (subst chunk_loop.simps) simp

lemma chunk_text_returns: "\<exists>result. chunk_text self text = Some result"
proof (cases "chunk_size self \<le> chunk_overlap self")
  case True
  then show ?thesis by (simp add: chunk_text_def chunk_loop_break)
next
  case False
  then have "0 < chunk_size self - chunk_overlap self" by simp
  from chunk_loop_returns [OF this, of 0 "text" "[]"] show ?thesis
    by (simp add: chunk_text_def)
qed

text \<open>
  C6. For a configuration with \<open>chunk_size > 0\<close> and \<open>0 \<le> chunk_overlap < chunk_size\<close>,
  \<open>chunk_text\<close> returns, and what it returns is the list of the specification: the
  offsets start at 0 and grow by exactly \<open>chunk_size - chunk_overlap\<close> while they are below
  the length of the text, the chunk of an offset is the substring of \<open>chunk_size\<close>
  characters from it, stripped, blank chunks are left out, and the chunks come in the order
  of their offsets. For an empty or all-whitespace text the result is the empty list, not
  an error.
\<close>

theorem chunk_text_spec:
  assumes "0 < chunk_size self" "0 \<le> chunk_overlap self" "chunk_overlap self < chunk_size self"
  shows "chunk_text self text
           = Some (chunks_spec (nat (chunk_size self)) (nat (chunk_overlap self)) text)
       \<and> ((\<forall>c\<in>set text. is_space c) \<longrightarrow> chunk_text self text = Some [])"
proof -
  have step: "0 < chunk_size self - chunk_overlap self" using assms by simp
  have st: "nat (chunk_size self) - nat (chunk_overlap self) = nat (chunk_size self - chunk_overlap self)"
    using assms by simp
  have loop: "chunk_loop self text 0 []
      = Some (chunks_spec (nat (chunk_size self)) (nat (chunk_overlap self)) text)"
    using chunk_loop_offsets [OF step assms(1), of "text" 0 "[]"]
    by (simp add: chunks_spec_def chunk_offsets_def st)
  have blank: "chunks_spec (nat (chunk_size self)) (nat (chunk_overlap self)) text = []"
    if "\<forall>c\<in>set text. is_space c"
  proof -
    have "strip (substring text s e) = []" for s e
      using that unfolding strip_Nil_iff substring_def
      by (meson in_set_dropD in_set_takeD)
    then show ?thesis by (simp add: chunks_spec_def)
  qed
  show ?thesis
    using loop blank by (auto simp: chunk_text_def strip_Nil_iff)
qed

theorem chunk_text_spec_witness:
  "(0::int) < 5 \<and> (0::int) \<le> 2 \<and> (2::int) < 5
   \<and> chunk_text \<lparr>chunk_size = 5, chunk_overlap = 2\<rparr> ''hello world''
       = Some [''hello'', ''lo wo'', ''world'', ''ld'']
   \<and> is_space (CHR '' '')
   \<and> chunk_text \<lparr>chunk_size = 5, chunk_overlap = 2\<rparr> ''  '' = Some []"
proof -
  have spec: "chunks_spec 5 2 ''hello world'' = [''hello'', ''lo wo'', ''world'', ''ld'']"
    by code_simp
  have blank: "\<forall>c\<in>set ''  ''. is_space c" by (simp add: is_space_def)
  have "chunk_text \<lparr>chunk_size = 5, chunk_overlap = 2\<rparr> ''hello world''
          = Some [''hello'', ''lo wo'', ''world'', ''ld'']"
    using chunk_text_spec [of "\<lparr>chunk_size = 5, chunk_overlap = 2\<rparr>" "''hello world''"] spec
    by simp
  moreover have "chunk_text \<lparr>chunk_size = 5, chunk_overlap = 2\<rparr> ''  '' = Some []"
  proof -
    have config: "0 < chunk_size \<lparr>chunk_size = 5, chunk_overlap = 2\<rparr>"
      "0 \<le> chunk_overlap \<lparr>chunk_size = 5, chunk_overlap = 2\<rparr>"
      "chunk_overlap \<lparr>chunk_size = 5, chunk_overlap = 2\<rparr> < chunk_size \<lparr>chunk_size = 5, chunk_overlap = 2\<rparr>"
      by simp_all
    from chunk_text_spec [OF config, of "''  ''"] blank show ?thesis by blast
  qed
  ultimately show ?thesis using blank by simp
qed

text \<open>
  C4, as stated, fails: with \<open>chunk_overlap = chunk_size = 5\<close> the call does not raise. It
  returns the first chunk.
\<close>

theorem chunk_text_overlap_counterexample:
  "chunk_text \<lparr>chunk_size = 5, chunk_overlap = 5\<rparr> ''hello world'' = Some [''hello'']"
  by (simp add: chunk_text_def chunk_loop.simps append_chunk_def py_slice_def strip_def
        is_space_def Let_def)

text \<open>
  C4, amended. For every text and every configuration with \<open>chunk_overlap \<ge> chunk_size\<close>,
  \<open>chunk_text\<close> neither loops nor raises: it returns after the first iteration, with no
  chunk for an empty or blank text and otherwise with at most one chunk, the stripped
  slice \<open>text[0:chunk_size]\<close> when that is not blank.
\<close>

theorem chunk_text_nonpositive_advance:
  assumes "chunk_size self \<le> chunk_overlap self"
  shows "chunk_text self text =
           Some (if text = [] \<or> strip text = [] then []
                 else if strip (py_slice text 0 (chunk_size self)) \<noteq> []
                      then [strip (py_slice text 0 (chunk_size self))]
                      else [])"
  using assms by (simp add: chunk_text_def chunk_loop_break append_chunk_def Let_def)

theorem chunk_text_nonpositive_advance_witness:
  "(3::int) \<le> 7
   \<and> chunk_text \<lparr>chunk_size = 3, chunk_overlap = 7\<rparr> '' abcdef'' = Some [''ab'']"
  using chunk_text_nonpositive_advance [of "\<lparr>chunk_size = 3, chunk_overlap = 7\<rparr>" "'' abcdef''"]
  by (simp add: py_slice_def strip_def is_space_def)

section \<open>Properties of origin validation\<close>

lemma takeWhile_eq_replicate: "takeWhile (\<lambda>x. x = c) xs = replicate (length (takeWhile (\<lambda>x. x = c) xs)) c"
  by (induction xs) auto

lemma rstrip_decomposition: "\<exists>n. s = rstrip c s @ replicate n c"
proof -
  have "rev s = takeWhile (\<lambda>x. x = c) (rev s) @ dropWhile (\<lambda>x. x = c) (rev s)"
    by simp
  then have "s = rev (dropWhile (\<lambda>x. x = c) (rev s)) @ rev (takeWhile (\<lambda>x. x = c) (rev s))"
    by (metis rev_append rev_rev_ident)
  moreover have "rev (takeWhile (\<lambda>x. x = c) (rev s))
      = replicate (length (takeWhile (\<lambda>x. x = c) (rev s))) c"
    by (subst takeWhile_eq_replicate) simp
  ultimately show ?thesis unfolding rstrip_def by metis
qed

lemma rstrip_last: "rstrip c s \<noteq> [] \<Longrightarrow> last (rstrip c s) \<noteq> c"
  unfolding rstrip_def using hd_dropWhile [of "\<lambda>x. x = c" "rev s"]
  by (simp add: last_rev)

text \<open>
  C3, as stated, fails in two places. An origin with two trailing slashes is accepted
  for the allow-list entry without them, although stripping a single slash leaves
  different strings; and an origin that is present but empty is rejected as missing, even
  where its normalisation matches an entry.
\<close>

theorem validate_origin_counterexample:
  "validate_origin
     \<lparr>chatbox_id = 1, organization_id = 1, chatbox_name = ''docs'', description = None,
      allowed_domains = Some [''https://a.com''], enforce_allowed_domains = True\<rparr>
     (Some ''https://a.com//'') = Inr ()
   \<and> validate_origin_spec
     \<lparr>chatbox_id = 1, organization_id = 1, chatbox_name = ''docs'', description = None,
      allowed_domains = Some [''https://a.com''], enforce_allowed_domains = True\<rparr>
     (Some ''https://a.com//'') = Inl (OriginNotAllowedError ''https://a.com//'')
   \<and> validate_origin
     \<lparr>chatbox_id = 1, organization_id = 1, chatbox_name = ''docs'', description = None,
      allowed_domains = Some [''/''], enforce_allowed_domains = True\<rparr>
     (Some '''') = Inl (ForbiddenError ''Origin header is required for this chatbox'')
   \<and> validate_origin_spec
     \<lparr>chatbox_id = 1, organization_id = 1, chatbox_name = ''docs'', description = None,
      allowed_domains = Some [''/''], enforce_allowed_domains = True\<rparr>
     (Some '''') = Inr ()"
  by (simp add: validate_origin_def validate_origin_spec_def normalize_def normalize_spec_def
        rstrip_def lower_def lower_char_def)

text \<open>
  C3, amended. Without enforcement every origin is accepted, a missing one too. With
  enforcement a missing or empty origin raises \<open>ForbiddenError\<close>; otherwise a missing or
  empty allow-list raises \<open>ForbiddenError\<close>; otherwise the origin is accepted if and only
  if its normalisation equals the normalisation of some entry, and a mismatch raises
  \<open>OriginNotAllowedError\<close>, an instance of \<open>ForbiddenError\<close> whose message names the
  origin as it was given. Normalisation lowercases and strips every trailing slash.
\<close>

theorem validate_origin_decision:
  "(\<not> enforce_allowed_domains chatbox \<longrightarrow> validate_origin chatbox origin = Inr ())
   \<and> (enforce_allowed_domains chatbox \<and> (origin = None \<or> origin = Some []) \<longrightarrow>
        validate_origin chatbox origin
          = Inl (ForbiddenError ''Origin header is required for this chatbox''))
   \<and> (enforce_allowed_domains chatbox \<and> origin = Some orig \<and> orig \<noteq> []
        \<and> not_domains (allowed_domains chatbox) \<longrightarrow>
        validate_origin chatbox origin
          = Inl (ForbiddenError ''No allowed domains configured for this chatbox''))
   \<and> (enforce_allowed_domains chatbox \<and> origin = Some orig \<and> orig \<noteq> []
        \<and> allowed_domains chatbox = Some domains \<and> domains \<noteq> [] \<longrightarrow>
        (validate_origin chatbox origin = Inr ()
           \<longleftrightarrow> (\<exists>d\<in>set domains. normalize orig = normalize d))
        \<and> ((\<forall>d\<in>set domains. normalize orig \<noteq> normalize d) \<longrightarrow>
             validate_origin chatbox origin = Inl (OriginNotAllowedError orig)))
   \<and> isinstance_ForbiddenError (OriginNotAllowedError orig)
   \<and> message (OriginNotAllowedError orig)
        = ''Origin '' @ quoted orig @ '' is not allowed for this chatbox''
   \<and> (\<exists>n. lower orig = normalize orig @ replicate n (CHR ''/''))
   \<and> (normalize orig = [] \<or> last (normalize orig) \<noteq> CHR ''/'')"
proof -
  have "\<exists>n. lower orig = normalize orig @ replicate n (CHR ''/'')"
    unfolding normalize_def by (rule rstrip_decomposition)
  moreover have "normalize orig = [] \<or> last (normalize orig) \<noteq> CHR ''/''"
    unfolding normalize_def using rstrip_last by blast
  ultimately show ?thesis
    by (auto simp: validate_origin_def not_domains_def split: option.splits)
qed

theorem validate_origin_decision_witness:
  "validate_origin
     \<lparr>chatbox_id = 1, organization_id = 1, chatbox_name = ''docs'', description = None,
      allowed_domains = None, enforce_allowed_domains = False\<rparr> None = Inr ()
   \<and> validate_origin
     \<lparr>chatbox_id = 1, organization_id = 1, chatbox_name = ''docs'', description = None,
      allowed_domains = Some [''https://a.com''], enforce_allowed_domains = True\<rparr> None
       = Inl (ForbiddenError ''Origin header is required for this chatbox'')
   \<and> validate_origin
     \<lparr>chatbox_id = 1, organization_id = 1, chatbox_name = ''docs'', description = None,
      allowed_domains = Some [], enforce_allowed_domains = True\<rparr> (Some ''https://a.com'')
       = Inl (ForbiddenError ''No allowed domains configured for this chatbox'')
   \<and> validate_origin
     \<lparr>chatbox_id = 1, organization_id = 1, chatbox_name = ''docs'', description = None,
      allowed_domains = Some [''https://a.com''], enforce_allowed_domains = True\<rparr>
     (Some ''HTTPS://A.com/'') = Inr ()
   \<and> validate_origin
     \<lparr>chatbox_id = 1, organization_id = 1, chatbox_name = ''docs'', description = None,
      allowed_domains = Some [''https://a.com''], enforce_allowed_domains = True\<rparr>
     (Some ''https://b.com'') = Inl (OriginNotAllowedError ''https://b.com'')"
proof -
  have match: "normalize ''HTTPS://A.com/'' = normalize ''https://a.com''"
    by code_simp
  have mismatch: "normalize ''https://b.com'' \<noteq> normalize ''https://a.com''"
    by code_simp
  let ?open = "\<lparr>chatbox_id = 1, organization_id = 1, chatbox_name = ''docs'', description = None,
      allowed_domains = None, enforce_allowed_domains = False\<rparr>"
  let ?empty = "\<lparr>chatbox_id = 1, organization_id = 1, chatbox_name = ''docs'', description = None,
      allowed_domains = Some [], enforce_allowed_domains = True\<rparr>"
  let ?strict = "\<lparr>chatbox_id = 1, organization_id = 1, chatbox_name = ''docs'', description = None,
      allowed_domains = Some [''https://a.com''], enforce_allowed_domains = True\<rparr>"
  have "validate_origin ?open None = Inr ()"
    using validate_origin_decision [of ?open None] by simp
  moreover have "validate_origin ?strict None
      = Inl (ForbiddenError ''Origin header is required for this chatbox'')"
    using validate_origin_decision [of ?strict None] by simp
  moreover have "validate_origin ?empty (Some ''https://a.com'')
      = Inl (ForbiddenError ''No allowed domains configured for this chatbox'')"
    using validate_origin_decision [of ?empty "Some ''https://a.com''" "''https://a.com''"]
    by (simp add: not_domains_def)
  moreover have "validate_origin ?strict (Some ''HTTPS://A.com/'') = Inr ()"
    using validate_origin_decision
            [of ?strict "Some ''HTTPS://A.com/''" "''HTTPS://A.com/''" "[''https://a.com'']"] match
    by simp
  moreover have "validate_origin ?strict (Some ''https://b.com'')
      = Inl (OriginNotAllowedError ''https://b.com'')"
    using validate_origin_decision
            [of ?strict "Some ''https://b.com''" "''https://b.com''" "[''https://a.com'']"] mismatch
    by simp
  ultimately show ?thesis by simp
qed

section \<open>Properties of the retrieval defaults\<close>

text \<open>
  C8, as stated, fails: an explicit \<open>top_k = 0\<close> and an explicit \<open>min_score = 0.0\<close> are
  both replaced by the configured defaults.
\<close>

theorem resolve_defaults_counterexample:
  "resolve_defaults default_settings (Some 0) (Some 0) = (5, 7 / 10)"
  by (simp add: resolve_defaults_def py_or_def default_settings_def)

text \<open>
  C8, amended. \<open>top_k\<close> and \<open>min_score\<close> are replaced by the configured defaults exactly
  when the caller omits them or passes zero; every other value the caller supplies is used
  as given.
\<close>

theorem resolve_defaults_spec:
  "(top_k = None \<or> top_k = Some 0 \<longrightarrow>
      fst (resolve_defaults settings top_k min_score) = vector_top_k_default settings)
   \<and> (top_k = Some k \<and> k \<noteq> 0 \<longrightarrow> fst (resolve_defaults settings top_k min_score) = k)
   \<and> (min_score = None \<or> min_score = Some 0 \<longrightarrow>
      snd (resolve_defaults settings top_k min_score) = vector_min_score_default settings)
   \<and> (min_score = Some m \<and> m \<noteq> 0 \<longrightarrow> snd (resolve_defaults settings top_k min_score) = m)"
  by (auto simp: resolve_defaults_def py_or_def)

theorem resolve_defaults_spec_witness:
  "resolve_defaults default_settings None None = (5, 7 / 10)
   \<and> resolve_defaults default_settings (Some 3) (Some (1 / 2)) = (3, 1 / 2)"
proof -
  have "fst (resolve_defaults default_settings None None) = 5"
    and "snd (resolve_defaults default_settings None None) = 7 / 10"
    using resolve_defaults_spec [of None default_settings None]
    by (simp_all add: default_settings_def)
  moreover have "fst (resolve_defaults default_settings (Some 3) (Some (1 / 2))) = 3"
    and "snd (resolve_defaults default_settings (Some 3) (Some (1 / 2))) = 1 / 2"
    using resolve_defaults_spec [of "Some 3" default_settings "Some (1 / 2)" 3 "1 / 2"]
    by simp_all
  ultimately show ?thesis by (simp add: prod_eq_iff)
qed

section \<open>Properties of the embedding service\<close>

text \<open>
  C2. \<open>embed_text\<close> raises \<open>TypeError\<close> for every text and every service: the
  subscript is applied to the coroutine object before anything is awaited. Awaiting first
  and subscripting then, as the claim reads the line, gives the first vector of
  \<open>embed_texts([text])\<close>; with the stub strategy that is the stub embedding of the text.
\<close>

theorem embed_text_raises:
  "embed_text proc self text
     = Inl (TypeError (quoted ''coroutine'' @ '' object is not subscriptable''))
   \<and> first_embedding proc (self\<lparr>openai_client := None\<rparr>) text
     = Inr (Embedding (generate_stub_embedding proc (self\<lparr>openai_client := None\<rparr>) text))"
  by (simp add: embed_text_def first_embedding_def embed_texts_def py_index_def)

text \<open>
  C5. The seed of the stub embedding is the value of the built-in \<open>hash\<close> on the text,
  reduced modulo \<open>2 ^ 32\<close>: two processes seed the generator alike for a text exactly when
  their \<open>hash\<close> values of it agree modulo \<open>2 ^ 32\<close>. The built-in \<open>hash\<close> of a string
  is salted per process, so the seed is a function of the process as well as of the text:
  the two values of \<open>hash("foo")\<close> below are those of CPython 3.11 started with
  \<open>PYTHONHASHSEED=1\<close> and with \<open>PYTHONHASHSEED=2\<close>, and the seeds differ.
\<close>

theorem stub_seed_depends_on_process_hash:
  "(stub_seed p1 text = stub_seed p2 text) = (hash p1 text mod 2 ^ 32 = hash p2 text mod 2 ^ 32)
   \<and> stub_seed (p\<lparr>hash := \<lambda>t. 1603728720450038992\<rparr>) ''foo'' = 981740752
   \<and> stub_seed (p\<lparr>hash := \<lambda>t. 4149081275277297794\<rparr>) ''foo'' = 3844130946"
  by (simp add: stub_seed_def)

section \<open>Properties of the vector search\<close>

text \<open>
  C7. \<open>similarity_search\<close> never raises. Whatever exception the body of its \<open>try\<close>
  block meets (the query embedding cannot be iterated, the engine fails to execute the
  statement, a row cannot be converted), the result is the empty list; in particular when
  the engine raises.
\<close>

theorem similarity_search_never_raises:
  "(\<exists>found. similarity_search execute cid query_embedding top_k min_score did = Inr found)
   \<and> (search_attempt execute cid query_embedding top_k min_score did = Inl e \<longrightarrow>
        similarity_search execute cid query_embedding top_k min_score did = Inr [])
   \<and> (iterate query_embedding = Inr items
        \<and> execute (search_query did)
             \<lparr>param_embedding = items, param_chatbox_id = cid, param_document_id = did,
              param_min_score = min_score, param_top_k = top_k\<rparr> = Inl e \<longrightarrow>
        similarity_search execute cid query_embedding top_k min_score did = Inr [])"
  by (auto simp: similarity_search_def search_attempt_def split: sum.splits)

theorem similarity_search_never_raises_witness:
  "search_attempt (\<lambda>statement params. Inl (Exception ''type vector does not exist''))
     1 (Embedding [1, 0]) 5 (7 / 10) None = Inl (Exception ''type vector does not exist'')
   \<and> iterate (Embedding [1, 0]) = Inr [Float 1, Float 0]
   \<and> similarity_search (\<lambda>statement params. Inl (Exception ''type vector does not exist''))
     1 (Embedding [1, 0]) 5 (7 / 10) None = Inr []"
proof -
  have attempt:
    "search_attempt (\<lambda>statement params. Inl (Exception ''type vector does not exist''))
       1 (Embedding [1, 0]) 5 (7 / 10) None = Inl (Exception ''type vector does not exist'')"
    by (simp add: search_attempt_def)
  have items: "iterate (Embedding [1, 0]) = Inr [Float 1, Float 0]"
    by simp
  show ?thesis
    using attempt items
      similarity_search_never_raises
        [of "\<lambda>statement params. Inl (Exception ''type vector does not exist'')"
            1 "Embedding [1, 0]" 5 "7 / 10" None "Exception ''type vector does not exist''"
            "[Float 1, Float 0]"]
    by simp
qed

section \<open>Properties of the retrieval pipeline\<close>

text \<open>
  The end of \<open>query\<close>, taken alone, does what the specification says of a retrieval
  without results: the fixed answer, no sources, no error, and no use of the language
  model.
\<close>

lemma answer_from_no_chunks:
  "answer_from_chunks llm_service db question [] = Inr (no_information_answer, [])"
  by (simp add: answer_from_chunks_def)

text \<open>
  C1. For a chatbox without enforcement, \<open>query\<close> raises the \<open>TypeError\<close> of
  \<open>embed_text\<close> whatever the question, the services and the database are: the search is
  never reached, and a query whose search would find nothing (an engine that returns no
  rows, here) gets an error, not the fixed answer.
\<close>

theorem query_raises:
  "query settings proc execute embedding_service llm_service db
     (chatbox\<lparr>enforce_allowed_domains := False\<rparr>) question origin document_filter top_k min_score
     = Inl (TypeError (quoted ''coroutine'' @ '' object is not subscriptable''))
   \<and> similarity_search (\<lambda>statement params. Inr []) cid (Embedding v) k m document_filter = Inr []"
  by (simp add: query_def validate_origin_def embed_text_def similarity_search_def
        search_attempt_def)

section \<open>Properties of the chatbox routes\<close>

lemma create_chatbox_result:
  "fst (create_chatbox db data org_id) = Inr created \<Longrightarrow> allow_list_invariant created"
  by (auto simp: create_chatbox_def chatbox_create_def allow_list_invariant_def Let_def
           split: if_splits)

lemma update_chatbox_result:
  "fst (update_chatbox db cid upd) = Inr stored \<Longrightarrow> allow_list_invariant stored"
  by (auto simp: update_chatbox_def chatbox_update_def allow_list_invariant_def Let_def
           split: if_splits sum.splits)

lemma create_chatbox_preserves:
  assumes "\<forall>c\<in>set (chatboxes db). allow_list_invariant c"
  shows "\<forall>c\<in>set (chatboxes (snd (create_chatbox db data org_id))). allow_list_invariant c"
proof (cases "new_enforce_allowed_domains data \<and> not_domains (new_allowed_domains data)")
  case True
  then show ?thesis using assms by (simp add: create_chatbox_def)
next
  case False
  then have "chatboxes (snd (create_chatbox db data org_id))
      = chatboxes db @ [the_created]" if "fst (create_chatbox db data org_id) = Inr the_created"
    for the_created
    using that by (auto simp: create_chatbox_def chatbox_create_def Let_def)
  moreover from False obtain created where created: "fst (create_chatbox db data org_id) = Inr created"
    by (auto simp: create_chatbox_def chatbox_create_def Let_def)
  ultimately have "chatboxes (snd (create_chatbox db data org_id)) = chatboxes db @ [created]"
    by blast
  then show ?thesis using assms create_chatbox_result [OF created] by simp
qed

lemma update_chatbox_preserves:
  assumes "\<forall>c\<in>set (chatboxes db). allow_list_invariant c"
  shows "\<forall>c\<in>set (chatboxes (snd (update_chatbox db cid upd))). allow_list_invariant c"
proof (cases "fst (update_chatbox db cid upd)")
  case (Inl e)
  then have "snd (update_chatbox db cid upd) = db"
    by (auto simp: update_chatbox_def chatbox_update_def Let_def split: sum.splits if_splits)
  then show ?thesis using assms by simp
next
  case (Inr stored)
  then have "chatboxes (snd (update_chatbox db cid upd))
      = map (\<lambda>c. if chatbox_id c = chatbox_id stored then stored else c) (chatboxes db)"
    by (auto simp: update_chatbox_def chatbox_update_def Let_def split: sum.splits if_splits)
  then show ?thesis using assms update_chatbox_result [OF Inr] by auto
qed

lemma reachable_invariant:
  "reachable db \<Longrightarrow> \<forall>c\<in>set (chatboxes db). allow_list_invariant c"
proof (induction rule: reachable.induct)
  case initial
  show ?case by (simp add: empty_database_def)
next
  case (created db data org_id)
  from created.IH show ?case by (rule create_chatbox_preserves)
next
  case (updated db cid data)
  from updated.IH show ?case by (rule update_chatbox_preserves)
qed

text \<open>
  C9. In every database that the create and update routes produce from the empty one,
  each chatbox with \<open>enforce_allowed_domains\<close> has a non-empty allow-list. Create
  rejects with \<open>ValidationError\<close>, and leaves the database as it was, when enforcement is
  requested without a non-empty allow-list; update does the same when the chatbox as
  updated would enforce without a non-empty allow-list. A chatbox that either route returns
  satisfies the invariant.
\<close>

theorem allow_list_invariant_reachable:
  "(reachable db \<longrightarrow>
      (\<forall>chatbox\<in>set (chatboxes db).
         enforce_allowed_domains chatbox \<longrightarrow>
         allowed_domains chatbox \<noteq> None \<and> allowed_domains chatbox \<noteq> Some []))
   \<and> (new_enforce_allowed_domains data
        \<and> (new_allowed_domains data = None \<or> new_allowed_domains data = Some []) \<longrightarrow>
        create_chatbox db data org_id
          = (Inl (ValidationError ''allowed_domains is required when enforce_allowed_domains is True''),
             db))
   \<and> (chatbox_get_by_id db cid = Inr loaded
        \<and> enforce_allowed_domains (apply_update loaded upd)
        \<and> (allowed_domains (apply_update loaded upd) = None
             \<or> allowed_domains (apply_update loaded upd) = Some []) \<longrightarrow>
        update_chatbox db cid upd
          = (Inl (ValidationError ''allowed_domains is required when enforce_allowed_domains is True''),
             db))
   \<and> (fst (create_chatbox db data org_id) = Inr created \<longrightarrow> allow_list_invariant created)
   \<and> (fst (update_chatbox db cid upd) = Inr stored \<longrightarrow> allow_list_invariant stored)"
proof -
  have "reachable db \<longrightarrow>
      (\<forall>chatbox\<in>set (chatboxes db).
         enforce_allowed_domains chatbox \<longrightarrow>
         allowed_domains chatbox \<noteq> None \<and> allowed_domains chatbox \<noteq> Some [])"
    using reachable_invariant [of db] by (auto simp: allow_list_invariant_def not_domains_def)
  moreover have "new_enforce_allowed_domains data
        \<and> (new_allowed_domains data = None \<or> new_allowed_domains data = Some []) \<longrightarrow>
        create_chatbox db data org_id
          = (Inl (ValidationError ''allowed_domains is required when enforce_allowed_domains is True''),
             db)"
    by (simp add: create_chatbox_def not_domains_def)
  moreover have "chatbox_get_by_id db cid = Inr loaded
        \<and> enforce_allowed_domains (apply_update loaded upd)
        \<and> (allowed_domains (apply_update loaded upd) = None
             \<or> allowed_domains (apply_update loaded upd) = Some []) \<longrightarrow>
        update_chatbox db cid upd
          = (Inl (ValidationError ''allowed_domains is required when enforce_allowed_domains is True''),
             db)"
    by (simp add: update_chatbox_def not_domains_def)
  ultimately show ?thesis
    using create_chatbox_result update_chatbox_result by blast
qed

theorem allow_list_invariant_reachable_witness:
  "reachable
     (snd (create_chatbox empty_database
             \<lparr>new_name = ''docs'', new_description = None,
              new_allowed_domains = Some [''https://a.com''],
              new_enforce_allowed_domains = True\<rparr> 1))
   \<and> chatboxes
       (snd (create_chatbox empty_database
               \<lparr>new_name = ''docs'', new_description = None,
                new_allowed_domains = Some [''https://a.com''],
                new_enforce_allowed_domains = True\<rparr> 1))
       = [\<lparr>chatbox_id = 1, organization_id = 1, chatbox_name = ''docs'', description = None,
           allowed_domains = Some [''https://a.com''], enforce_allowed_domains = True\<rparr>]
   \<and> create_chatbox empty_database
         \<lparr>new_name = ''docs'', new_description = None, new_allowed_domains = None,
          new_enforce_allowed_domains = True\<rparr> 1
       = (Inl (ValidationError ''allowed_domains is required when enforce_allowed_domains is True''),
          empty_database)
   \<and> update_chatbox
         (snd (create_chatbox empty_database
                 \<lparr>new_name = ''docs'', new_description = None,
                  new_allowed_domains = Some [''https://a.com''],
                  new_enforce_allowed_domains = True\<rparr> 1))
         1 \<lparr>upd_name = None, upd_description = None, upd_allowed_domains = Some [],
            upd_enforce_allowed_domains = None\<rparr>
       = (Inl (ValidationError ''allowed_domains is required when enforce_allowed_domains is True''),
          snd (create_chatbox empty_database
                 \<lparr>new_name = ''docs'', new_description = None,
                  new_allowed_domains = Some [''https://a.com''],
                  new_enforce_allowed_domains = True\<rparr> 1))"
proof -
  let ?good = "\<lparr>new_name = ''docs'', new_description = None,
                new_allowed_domains = Some [''https://a.com''],
                new_enforce_allowed_domains = True\<rparr>"
  let ?bad = "\<lparr>new_name = ''docs'', new_description = None, new_allowed_domains = None,
               new_enforce_allowed_domains = True\<rparr>"
  let ?clear = "\<lparr>upd_name = None, upd_description = None, upd_allowed_domains = Some [],
                 upd_enforce_allowed_domains = None\<rparr>"
  let ?row = "\<lparr>chatbox_id = 1, organization_id = 1, chatbox_name = ''docs'', description = None,
           allowed_domains = Some [''https://a.com''], enforce_allowed_domains = True\<rparr>"
  let ?db = "snd (create_chatbox empty_database ?good 1)"
  have reach: "reachable ?db" by (rule reachable.created) (rule reachable.initial)
  have rows: "chatboxes ?db = [?row]"
    by (simp add: create_chatbox_def chatbox_create_def not_domains_def empty_database_def Let_def)
  have loaded: "chatbox_get_by_id ?db 1 = Inr ?row"
    by (simp add: chatbox_get_by_id_def rows)
  have merged: "enforce_allowed_domains (apply_update ?row ?clear)"
    "allowed_domains (apply_update ?row ?clear) = Some []"
    by (simp_all add: apply_update_def)
  have "create_chatbox empty_database ?bad 1
       = (Inl (ValidationError ''allowed_domains is required when enforce_allowed_domains is True''),
          empty_database)"
    using allow_list_invariant_reachable [of empty_database ?bad 1] by simp
  moreover have "update_chatbox ?db 1 ?clear
       = (Inl (ValidationError ''allowed_domains is required when enforce_allowed_domains is True''),
          ?db)"
    using allow_list_invariant_reachable [of ?db ?bad 1 1 ?row ?clear] loaded merged by simp
  ultimately show ?thesis using reach rows by simp
qed

section \<open>Properties of ingestion\<close>

lemma ingest_text_returns:
  "\<exists>outcome. ingest_text proc chunking_service embedding_service db cid text name = Some outcome"
proof -
  obtain pieces where "chunk_text chunking_service text = Some pieces"
    using chunk_text_returns by blast
  then show ?thesis
    by (auto simp: ingest_text_def Let_def split: prod.splits sum.splits)
qed

text \<open>
  Where the chatbox does not exist, the insert of the document raises and \<open>ingest_text\<close>
  ends there: no document and no chunk is stored.
\<close>

lemma ingest_text_missing_chatbox:
  assumes "cid \<notin> set (map chatbox_id (chatboxes db))"
  shows "\<exists>e db'. ingest_text proc chunking_service embedding_service db cid text name
                    = Some (Inl e, db')
                \<and> documents db' = documents db \<and> chunks db' = chunks db"
  using assms
  by (auto simp: ingest_text_def document_create_def new_text_document_def too_long_def)

text \<open>
  C10. Take a run of \<open>ingest_text\<close> in which the document is created (its chatbox
  exists, as the route has checked before the call, and its source name fits the column),
  the chunker produces chunks, and \<open>embed_texts\<close> raises on them. The run returns with that error. The database it
  leaves holds the document row that was committed in step 1, with the key from the
  sequence, after the documents from before; the chunk table and its sequence are the ones
  from before the call.
\<close>

theorem ingest_text_embedding_failure:
  assumes "cid \<in> set (map chatbox_id (chatboxes db))"
    and "\<not> too_long 500 (source_name (new_text_document cid text name))"
    and "chunk_text chunking_service text = Some pieces" and "pieces \<noteq> []"
    and "embed_texts proc embedding_service pieces = Inl e"
  shows "ingest_text proc chunking_service embedding_service db cid text name
           = Some (Inl e,
                   db\<lparr>documents := documents db
                          @ [(new_text_document cid text name)\<lparr>document_id := document_seq db\<rparr>],
                      document_seq := document_seq db + 1\<rparr>)
       \<and> chunks (db\<lparr>documents := documents db
                          @ [(new_text_document cid text name)\<lparr>document_id := document_seq db\<rparr>],
                      document_seq := document_seq db + 1\<rparr>) = chunks db
       \<and> chunk_seq (db\<lparr>documents := documents db
                          @ [(new_text_document cid text name)\<lparr>document_id := document_seq db\<rparr>],
                      document_seq := document_seq db + 1\<rparr>) = chunk_seq db"
proof -
  have "mime_type (new_text_document cid text name) = None"
    by (simp add: new_text_document_def)
  then have created: "document_create db (new_text_document cid text name)
      = (Inr ((new_text_document cid text name)\<lparr>document_id := document_seq db\<rparr>),
         db\<lparr>documents := documents db
                @ [(new_text_document cid text name)\<lparr>document_id := document_seq db\<rparr>],
            document_seq := document_seq db + 1\<rparr>)"
    using assms(1,2)
    by (simp add: document_create_def too_long_def new_text_document_def Let_def)
  show ?thesis
    using assms(3,4,5) by (simp add: ingest_text_def created)
qed

theorem ingest_text_embedding_failure_witness:
  "(1::int) \<in> set (map chatbox_id
       [\<lparr>chatbox_id = 1, organization_id = 1, chatbox_name = ''docs'', description = None,
         allowed_domains = None, enforce_allowed_domains = False\<rparr>])
   \<and> \<not> too_long 500 (source_name (new_text_document 1 ''hello'' None))
   \<and> chunk_text \<lparr>chunk_size = 1000, chunk_overlap = 200\<rparr> ''hello'' = Some [''hello'']
   \<and> embed_texts \<lparr>hash = \<lambda>t. 0, randn = \<lambda>seed n. []\<rparr>
         \<lparr>openai_client = Some (\<lambda>texts. Inl (Exception ''timeout'')), embedding_dim = 1536\<rparr>
         [''hello'']
       = Inl (ExternalServiceError ''Failed to generate embeddings: timeout'' ''openai'')
   \<and> ingest_text \<lparr>hash = \<lambda>t. 0, randn = \<lambda>seed n. []\<rparr>
         \<lparr>chunk_size = 1000, chunk_overlap = 200\<rparr>
         \<lparr>openai_client = Some (\<lambda>texts. Inl (Exception ''timeout'')), embedding_dim = 1536\<rparr>
         \<lparr>chatboxes = [\<lparr>chatbox_id = 1, organization_id = 1, chatbox_name = ''docs'',
                         description = None, allowed_domains = None,
                         enforce_allowed_domains = False\<rparr>],
          documents = [], chunks = [], chatbox_seq = 2, document_seq = 1, chunk_seq = 1\<rparr>
         1 ''hello'' None
       = Some (Inl (ExternalServiceError ''Failed to generate embeddings: timeout'' ''openai''),
               \<lparr>chatboxes = [\<lparr>chatbox_id = 1, organization_id = 1, chatbox_name = ''docs'',
                               description = None, allowed_domains = None,
                               enforce_allowed_domains = False\<rparr>],
                documents = [\<lparr>document_id = 1, document_chatbox_id = 1, source_type = TEXT,
                              source_name = Some ''Raw Text'', source_url = None,
                              raw_content = ''hello'', file_size_bytes = None, mime_type = None\<rparr>],
                chunks = [], chatbox_seq = 2, document_seq = 2, chunk_seq = 1\<rparr>)"
proof -
  let ?db = "\<lparr>chatboxes = [\<lparr>chatbox_id = 1, organization_id = 1, chatbox_name = ''docs'',
                         description = None, allowed_domains = None,
                         enforce_allowed_domains = False\<rparr>],
          documents = [], chunks = [], chatbox_seq = 2, document_seq = 1, chunk_seq = 1\<rparr>"
  have exists: "(1::int) \<in> set (map chatbox_id (chatboxes ?db))" by simp
  have fits: "\<not> too_long 500 (source_name (new_text_document 1 ''hello'' None))"
    by (simp add: too_long_def new_text_document_def)
  have pieces: "chunk_text \<lparr>chunk_size = 1000, chunk_overlap = 200\<rparr> ''hello'' = Some [''hello'']"
    by (simp add: chunk_text_def chunk_loop.simps append_chunk_def py_slice_def strip_def
          is_space_def Let_def)
  have raised: "embed_texts \<lparr>hash = \<lambda>t. 0, randn = \<lambda>seed n. []\<rparr>
         \<lparr>openai_client = Some (\<lambda>texts. Inl (Exception ''timeout'')), embedding_dim = 1536\<rparr>
         [''hello'']
       = Inl (ExternalServiceError ''Failed to generate embeddings: timeout'' ''openai'')"
    by (simp add: embed_texts_def)
  have nonempty: "[''hello''] \<noteq> []" by simp
  show ?thesis
    using fits pieces raised
      ingest_text_embedding_failure [OF exists fits pieces nonempty raised]
    by (simp add: new_text_document_def)
qed

end
